theory Spec2Isabelle
  imports Main
begin

section \<open>The data model of binddict\<close>

text \<open>
  The module validates a tree of Python values against a schema (a nested dictionary of
  nodes) and collects the checked values in one flat dictionary.  The embedding follows
  \<^verbatim>\<open>__init__.py\<close>: \<^verbatim>\<open>bind\<close> and the recursive \<^verbatim>\<open>__bind\<close>.

  The builtins are those of Python 3.  Python values are the five kinds the docstring of
  \<^verbatim>\<open>bind\<close> lists for the data:
  str, int, float, dict and list.  A Python str is a list of characters, one \<open>char\<close> per
  code point (code points below 256).  Python's int is unbounded: \<open>int\<close>.  Floating-point
  numbers are not interpreted: the type \<open>'f\<close> stands for them and the operations on them
  are parameters (see \<open>runtime\<close> below).  A dict is an association list in insertion order.
  The binder looks up str keys only, and two str keys are the same key when their characters
  are the same.
\<close>

type_synonym path = "string list"

datatype 'f pyval =
    VStr string
  | VInt int
  | VFloat 'f
  | VDict "('f pyval \<times> 'f pyval) list"
  | VList "'f pyval list"

text \<open>
  The object stored under \<^verbatim>\<open>"type"\<close> in a node: one of the five builtin types, or any
  other object, which is represented by the text \<^verbatim>\<open>str\<close> gives for it.
\<close>

datatype pytype = TStr | TInt | TFloat | TDict | TList | TOther string

text \<open>
  A schema node is a dictionary with the keys \<^verbatim>\<open>type\<close>, \<^verbatim>\<open>strict\<close>, \<^verbatim>\<open>optional\<close>,
  \<^verbatim>\<open>destination\<close>, \<^verbatim>\<open>min_len\<close>, \<^verbatim>\<open>max_len\<close> and \<^verbatim>\<open>children\<close>.  A key that may be
  absent is an \<open>option\<close>, so that the defaults of \<^verbatim>\<open>mapping.get\<close> are applied where the
  source applies them.  \<open>destination = None\<close> stands both for an absent key and for the
  value \<^verbatim>\<open>None\<close>.  An absent \<^verbatim>\<open>children\<close> key reads as the empty dictionary, which is its
  default in the source, so the field is the list of the items in iteration order.
\<close>

datatype node = Node
  (ntype: "pytype option")
  (strict: "bool option")
  (optional: "bool option")
  (destination: "string option")
  (min_len: "int option")
  (max_len: "int option")
  (children: "(string \<times> node) list")

text \<open>
  The four exception classes of the module, and the builtin exceptions that the
  operations used by \<^verbatim>\<open>__bind\<close> can raise.
\<close>

datatype 'f exn =
    BindException path string
  | InvalidTypeException path pytype pytype "'f pyval" bool
  | InvalidStringLengthException path "'f pyval" string
  | RequiredValueMissingException path string
  | KeyError string
  | ValueError
  | TypeError
  | OverflowError
  | UnboundLocalError

text \<open>The result dictionary \<^verbatim>\<open>out\<close>, from destination to value.\<close>

type_synonym 'f out = "string \<rightharpoonup> 'f pyval"

text \<open>
  The operations of the Python runtime that are taken as parameters: conversions from and
  to floating-point numbers, the text of a dict or a list, and whether a float used as a
  key of a dict is the same key as another float or as an int.  \<open>max_str_digits\<close> is the
  interpreter's limit on the number of digits in a conversion between int and str
  (\<^verbatim>\<open>sys.get_int_max_str_digits()\<close>, 4300 unless set otherwise); 0 stands for no limit,
  which is also the behaviour of an interpreter older than the limit.
\<close>

record 'f runtime =
  float_of_int :: "int \<Rightarrow> 'f exn + 'f"
  float_of_str :: "string \<Rightarrow> 'f exn + 'f"
  int_of_float :: "'f \<Rightarrow> 'f exn + int"
  str_of_float :: "'f \<Rightarrow> string"
  str_of_container :: "'f pyval \<Rightarrow> string"
  float_eq :: "'f \<Rightarrow> 'f \<Rightarrow> bool"
  float_eq_int :: "'f \<Rightarrow> int \<Rightarrow> bool"
  max_str_digits :: nat

section \<open>The builtins used by the binder\<close>

text \<open>\<^verbatim>\<open>type(value)\<close>.\<close>

fun type_of :: "'f pyval \<Rightarrow> pytype" where
  "type_of (VStr s) = TStr"
| "type_of (VInt i) = TInt"
| "type_of (VFloat f) = TFloat"
| "type_of (VDict d) = TDict"
| "type_of (VList xs) = TList"

text \<open>\<^verbatim>\<open>str(t)\<close> for the object \<^verbatim>\<open>t\<close> found under \<^verbatim>\<open>"type"\<close>.\<close>

definition class_text :: "string \<Rightarrow> string" where
  "class_text name = ''<class '' @ [CHR 0x27] @ name @ [CHR 0x27] @ ''>''"

fun str_type :: "pytype \<Rightarrow> string" where
  "str_type TStr = class_text ''str''"
| "str_type TInt = class_text ''int''"
| "str_type TFloat = class_text ''float''"
| "str_type TDict = class_text ''dict''"
| "str_type TList = class_text ''list''"
| "str_type (TOther s) = s"

text \<open>
  The limit on conversions between int and str.  The interpreter looks at the limit only
  when the text is longer than 640 characters (the text with its sign for \<^verbatim>\<open>str(n)\<close>, the
  digits alone for \<^verbatim>\<open>int(s)\<close>); then the conversion raises \<^verbatim>\<open>ValueError\<close> when the limit
  is set and the number of digits is above it.
\<close>

definition exceeds_limit :: "'f runtime \<Rightarrow> nat \<Rightarrow> nat \<Rightarrow> bool" where
  "exceeds_limit rt text_length n_digits \<longleftrightarrow>
     640 < text_length \<and> 0 < max_str_digits rt \<and> max_str_digits rt < n_digits"

text \<open>
  \<^verbatim>\<open>str(n)\<close> for an int: the decimal digits, with a minus sign below zero, or
  \<^verbatim>\<open>ValueError\<close> when the digits exceed the limit.
\<close>

fun digits :: "nat \<Rightarrow> string" where
  "digits n =
     (if n < 10 then [''0123456789'' ! n]
      else digits (n div 10) @ [''0123456789'' ! (n mod 10)])"

declare digits.simps [simp del]

definition decimal :: "int \<Rightarrow> string" where
  "decimal i = (if i < 0 then CHR ''-'' # digits (nat (- i)) else digits (nat i))"

definition str_int :: "'f runtime \<Rightarrow> int \<Rightarrow> 'f exn + string" where
  "str_int rt i =
     (if exceeds_limit rt (length (decimal i)) (length (digits (nat \<bar>i\<bar>)))
      then Inl ValueError else Inr (decimal i))"

text \<open>
  \<^verbatim>\<open>int(s)\<close> for a str, in base ten: white space is stripped at both ends, one sign is
  allowed, then come decimal digits, where single underscores may separate digits.
  Anything else raises \<^verbatim>\<open>ValueError\<close>, and so does a number with more digits than the
  limit allows.  The white space that \<^verbatim>\<open>int\<close> strips is tab, line feed, vertical tab, form
  feed, carriage return and space, and among the other code points below 256 the next-line
  character and the no-break space.
\<close>

definition is_space :: "char \<Rightarrow> bool" where
  "is_space c \<longleftrightarrow> (of_char c :: nat) \<in> set [9, 10, 11, 12, 13, 32, 133, 160]"

definition strip :: "string \<Rightarrow> string" where
  "strip s = rev (dropWhile is_space (rev (dropWhile is_space s)))"

definition digit_val :: "char \<Rightarrow> nat option" where
  "digit_val c =
     (let n = (of_char c :: nat) in if 48 \<le> n \<and> n \<le> 57 then Some (n - 48) else None)"

fun parse_digits :: "bool \<Rightarrow> nat \<Rightarrow> string \<Rightarrow> nat option" where
  "parse_digits need acc [] = (if need then None else Some acc)"
| "parse_digits need acc (c # cs) =
     (case digit_val c of
        Some d \<Rightarrow> parse_digits False (10 * acc + d) cs
      | None \<Rightarrow> if c = CHR ''_'' \<and> \<not> need then parse_digits True acc cs else None)"

definition count_digits :: "string \<Rightarrow> nat" where
  "count_digits body = length (filter (\<lambda>c. digit_val c \<noteq> None) body)"

definition int_of_str :: "'f runtime \<Rightarrow> string \<Rightarrow> 'f exn + int" where
  "int_of_str rt s =
     (let t = strip s;
          neg = (t \<noteq> [] \<and> hd t = CHR ''-'');
          body = (if t \<noteq> [] \<and> (hd t = CHR ''-'' \<or> hd t = CHR ''+'') then tl t else t)
      in case parse_digits True 0 body of
           None \<Rightarrow> Inl ValueError
         | Some n \<Rightarrow>
             if exceeds_limit rt (count_digits body) (count_digits body) then Inl ValueError
             else Inr (if neg then - int n else int n))"

text \<open>\<^verbatim>\<open>str(value)\<close>, \<^verbatim>\<open>int(value)\<close>, \<^verbatim>\<open>float(value)\<close> and \<^verbatim>\<open>list(value)\<close>.\<close>

fun py_str :: "'f runtime \<Rightarrow> 'f pyval \<Rightarrow> 'f exn + 'f pyval" where
  "py_str rt (VStr s) = Inr (VStr s)"
| "py_str rt (VInt i) = map_sum id VStr (str_int rt i)"
| "py_str rt (VFloat f) = Inr (VStr (str_of_float rt f))"
| "py_str rt (VDict d) = Inr (VStr (str_of_container rt (VDict d)))"
| "py_str rt (VList xs) = Inr (VStr (str_of_container rt (VList xs)))"

fun py_int :: "'f runtime \<Rightarrow> 'f pyval \<Rightarrow> 'f exn + 'f pyval" where
  "py_int rt (VStr s) = map_sum id VInt (int_of_str rt s)"
| "py_int rt (VInt i) = Inr (VInt i)"
| "py_int rt (VFloat f) = map_sum id VInt (int_of_float rt f)"
| "py_int rt (VDict d) = Inl TypeError"
| "py_int rt (VList xs) = Inl TypeError"

fun py_float :: "'f runtime \<Rightarrow> 'f pyval \<Rightarrow> 'f exn + 'f pyval" where
  "py_float rt (VStr s) = map_sum id VFloat (float_of_str rt s)"
| "py_float rt (VInt i) = map_sum id VFloat (float_of_int rt i)"
| "py_float rt (VFloat f) = Inr (VFloat f)"
| "py_float rt (VDict d) = Inl TypeError"
| "py_float rt (VList xs) = Inl TypeError"

fun py_list :: "'f pyval \<Rightarrow> 'f exn + 'f pyval" where
  "py_list (VStr s) = Inr (VList (map (\<lambda>c. VStr [c]) s))"
| "py_list (VInt i) = Inl TypeError"
| "py_list (VFloat f) = Inl TypeError"
| "py_list (VDict d) = Inr (VList (map fst d))"
| "py_list (VList xs) = Inr (VList xs)"

text \<open>
  \<^verbatim>\<open>dict(value)\<close>.  A dict is copied.  Any other iterable must yield items that are
  themselves iterables of exactly two elements, the key and the value: an item that cannot
  be iterated or a key that cannot be hashed raises \<^verbatim>\<open>TypeError\<close>, an item of another
  length raises \<^verbatim>\<open>ValueError\<close>.  The items are taken in order and the first failure wins.
  A key that is already in the dict keeps its place and its first spelling and takes the
  new value; an int and a float that are equal as numbers are the same key.
\<close>

fun key_eq :: "'f runtime \<Rightarrow> 'f pyval \<Rightarrow> 'f pyval \<Rightarrow> bool" where
  "key_eq rt (VStr s) (VStr t) = (s = t)"
| "key_eq rt (VInt i) (VInt j) = (i = j)"
| "key_eq rt (VFloat f) (VFloat g) = float_eq rt f g"
| "key_eq rt (VFloat f) (VInt i) = float_eq_int rt f i"
| "key_eq rt (VInt i) (VFloat f) = float_eq_int rt f i"
| "key_eq rt a b = False"

fun update_key ::
  "'f runtime \<Rightarrow> 'f pyval \<Rightarrow> 'f pyval \<Rightarrow> ('f pyval \<times> 'f pyval) list \<Rightarrow>
   ('f pyval \<times> 'f pyval) list" where
  "update_key rt k v [] = [(k, v)]"
| "update_key rt k v ((k1, v1) # ps) =
     (if key_eq rt k1 k then (k1, v) # ps else (k1, v1) # update_key rt k v ps)"

fun pair_of :: "'f pyval \<Rightarrow> 'f exn + ('f pyval \<times> 'f pyval)" where
  "pair_of (VList xs) = (case xs of [k, v] \<Rightarrow> Inr (k, v) | _ \<Rightarrow> Inl ValueError)"
| "pair_of (VStr s) = (case s of [a, b] \<Rightarrow> Inr (VStr [a], VStr [b]) | _ \<Rightarrow> Inl ValueError)"
| "pair_of (VDict d) = (case d of [p, q] \<Rightarrow> Inr (fst p, fst q) | _ \<Rightarrow> Inl ValueError)"
| "pair_of (VInt i) = Inl TypeError"
| "pair_of (VFloat f) = Inl TypeError"

fun hashable :: "'f pyval \<Rightarrow> bool" where
  "hashable (VStr s) = True"
| "hashable (VInt i) = True"
| "hashable (VFloat f) = True"
| "hashable (VDict d) = False"
| "hashable (VList xs) = False"

fun dict_of_items ::
  "'f runtime \<Rightarrow> 'f pyval list \<Rightarrow> ('f pyval \<times> 'f pyval) list \<Rightarrow> 'f exn + 'f pyval" where
  "dict_of_items rt [] acc = Inr (VDict acc)"
| "dict_of_items rt (x # xs) acc =
     (case pair_of x of
        Inl e \<Rightarrow> Inl e
      | Inr (k, v) \<Rightarrow>
          if hashable k then dict_of_items rt xs (update_key rt k v acc) else Inl TypeError)"

fun py_dict :: "'f runtime \<Rightarrow> 'f pyval \<Rightarrow> 'f exn + 'f pyval" where
  "py_dict rt (VStr s) = dict_of_items rt (map (\<lambda>c. VStr [c]) s) []"
| "py_dict rt (VInt i) = Inl TypeError"
| "py_dict rt (VFloat f) = Inl TypeError"
| "py_dict rt (VDict d) = Inr (VDict d)"
| "py_dict rt (VList xs) = dict_of_items rt xs []"

text \<open>
  \<^verbatim>\<open>len(final_value)\<close>, \<^verbatim>\<open>key in final_value\<close> and \<^verbatim>\<open>final_value[key]\<close>.  The source
  applies the first to a str and the other two to a dict only (lemmas
  \<open>resolve_type_str\<close> and \<open>resolve_type_dict\<close> below); the keys it looks up are the
  strings of the schema.  \<open>lookup\<close> joins the test and the access: \<open>None\<close> when the key is
  not in the dict.  On the kinds of values that the source never passes, \<open>len\<close> is 0 and
  \<open>lookup\<close> finds nothing.
\<close>

fun len :: "'f pyval \<Rightarrow> int" where
  "len (VStr s) = int (length s)"
| "len (VDict d) = int (length d)"
| "len (VList xs) = int (length xs)"
| "len (VInt i) = 0"
| "len (VFloat f) = 0"

fun lookup :: "'f pyval \<Rightarrow> string \<Rightarrow> 'f pyval option" where
  "lookup (VDict d) key = map_of d (VStr key)"
| "lookup (VStr s) key = None"
| "lookup (VInt i) key = None"
| "lookup (VFloat f) key = None"
| "lookup (VList xs) key = None"

section \<open>The binder\<close>

text \<open>\<^verbatim>\<open>mapping.get(key, default)\<close> on a field of a node.\<close>

definition get :: "'a option \<Rightarrow> 'a \<Rightarrow> 'a" where
  "get field dflt = (case field of None \<Rightarrow> dflt | Some v \<Rightarrow> v)"

text \<open>The truth value of \<^verbatim>\<open>destination\<close> and of \<^verbatim>\<open>min_len\<close> or \<^verbatim>\<open>max_len\<close> in an \<^verbatim>\<open>if\<close>.\<close>

definition truthy_str :: "string option \<Rightarrow> bool" where
  "truthy_str field = (case field of None \<Rightarrow> False | Some s \<Rightarrow> s \<noteq> [])"

definition truthy_int :: "int option \<Rightarrow> bool" where
  "truthy_int field = (case field of None \<Rightarrow> False | Some i \<Rightarrow> i \<noteq> 0)"

text \<open>
  The body of the \<^verbatim>\<open>try\<close> in the branch \<^verbatim>\<open>strict\<close> false: the chain of conversions.  When
  no branch is taken \<^verbatim>\<open>final_value\<close> stays unbound, and its first use raises.
\<close>

definition coerce :: "'f runtime \<Rightarrow> pytype \<Rightarrow> 'f pyval \<Rightarrow> 'f exn + 'f pyval" where
  "coerce rt t val =
     (if t = TStr then py_str rt val
      else if t = TInt then py_int rt val
      else if t = TFloat then py_float rt val
      else if t = TDict then py_dict rt val
      else if t = TList then py_list val
      else Inl UnboundLocalError)"

text \<open>
  Type resolution, the \<^verbatim>\<open>if strict: ... else: try: ... except ValueError: ...\<close> of
  \<^verbatim>\<open>__bind\<close>: the result is \<^verbatim>\<open>final_value\<close>, or the exception raised.  Only
  \<^verbatim>\<open>ValueError\<close> is caught.
\<close>

definition resolve_type ::
  "'f runtime \<Rightarrow> bool \<Rightarrow> pytype \<Rightarrow> 'f pyval \<Rightarrow> path \<Rightarrow> 'f exn + 'f pyval" where
  "resolve_type rt is_strict t val p =
     (if is_strict then
        (if type_of val \<noteq> t then Inl (InvalidTypeException p (type_of val) t val True)
         else Inr val)
      else
        (case coerce rt t val of
           Inl ValueError \<Rightarrow> Inl (InvalidTypeException p (type_of val) t val False)
         | Inl e \<Rightarrow> Inl e
         | Inr final_value \<Rightarrow> Inr final_value))"

text \<open>\<^verbatim>\<open>if destination: out[destination] = final_value\<close>.\<close>

definition write_destination :: "string option \<Rightarrow> 'f pyval \<Rightarrow> 'f out \<Rightarrow> 'f out" where
  "write_destination dest final_value out =
     (if truthy_str dest then out(the dest \<mapsto> final_value) else out)"

text \<open>
  \<^verbatim>\<open>raise InvalidStringLengthException(path, value, sign + str(bound))\<close>: the text of the
  bound is built before the exception is raised, so a bound that \<^verbatim>\<open>str\<close> refuses leaves
  with the \<^verbatim>\<open>ValueError\<close> of \<^verbatim>\<open>str\<close> instead.
\<close>

definition raise_length ::
  "'f runtime \<Rightarrow> path \<Rightarrow> 'f pyval \<Rightarrow> string \<Rightarrow> int \<Rightarrow> 'f exn" where
  "raise_length rt p val sign bound =
     (case str_int rt bound of
        Inl e \<Rightarrow> e
      | Inr text \<Rightarrow> InvalidStringLengthException p val (sign @ text))"

text \<open>The two length checks of a str node, \<^verbatim>\<open>min_len\<close> first.\<close>

definition check_length ::
  "'f runtime \<Rightarrow> node \<Rightarrow> 'f pyval \<Rightarrow> 'f pyval \<Rightarrow> path \<Rightarrow> 'f exn option" where
  "check_length rt mapping val final_value p =
     (if truthy_int (min_len mapping) \<and> len final_value < the (min_len mapping) then
        Some (raise_length rt p val ''>= '' (the (min_len mapping)))
      else if truthy_int (max_len mapping) \<and> len final_value > the (max_len mapping) then
        Some (raise_length rt p val ''<= '' (the (max_len mapping)))
      else None)"

text \<open>
  \<^verbatim>\<open>__bind(value, mapping, path, out)\<close>.  The result is the exception raised, if any, and
  the dictionary \<^verbatim>\<open>out\<close> as the call leaves it: \<^verbatim>\<open>out\<close> is mutated in place, so what was
  written before an exception stays written.  \<open>bind_children\<close> is the \<^verbatim>\<open>for\<close> loop over
  \<^verbatim>\<open>children.items()\<close>; the loop assigns to \<^verbatim>\<open>path\<close>, so each iteration starts from the
  path of the iteration before.
\<close>

fun bind_node ::
  "'f runtime \<Rightarrow> 'f pyval \<Rightarrow> node \<Rightarrow> path \<Rightarrow> 'f out \<Rightarrow> 'f exn option \<times> 'f out"
and bind_children ::
  "'f runtime \<Rightarrow> 'f pyval \<Rightarrow> (string \<times> node) list \<Rightarrow> path \<Rightarrow> 'f out \<Rightarrow> 'f exn option \<times> 'f out"
where
  "bind_node rt val (Node ty st opt dest mn mx ch) p out =
     (case ty of
        None \<Rightarrow> (Some (KeyError ''type''), out)
      | Some t \<Rightarrow>
          if t \<notin> set [TStr, TInt, TFloat, TDict, TList] then
            (Some (BindException p (''Unknown expected type: '' @ str_type t)), out)
          else
            (case resolve_type rt (get st True) t val p of
               Inl e \<Rightarrow> (Some e, out)
             | Inr final_value \<Rightarrow>
                 (let out1 = write_destination dest final_value out in
                  if t = TStr then
                    (check_length rt (Node ty st opt dest mn mx ch) val final_value p, out1)
                  else if t = TDict then bind_children rt final_value ch p out1
                  else (None, out1))))"
| "bind_children rt final_value [] p out = (None, out)"
| "bind_children rt final_value ((key, child) # rest) p out =
     (let p1 = p @ [key];
          is_optional = get (optional child) False
      in case lookup final_value key of
           None \<Rightarrow>
             if \<not> is_optional then (Some (RequiredValueMissingException p1 key), out)
             else bind_children rt final_value rest p1 out
         | Some v \<Rightarrow>
             (case bind_node rt v child p1 out of
                (Some e, out1) \<Rightarrow> (Some e, out1)
              | (None, out1) \<Rightarrow> bind_children rt final_value rest p1 out1))"

text \<open>
  \<^verbatim>\<open>bind(data, mapping)\<close>.  \<open>bind_run\<close> gives the exception raised, if any, together with
  the local dictionary \<^verbatim>\<open>out\<close> at that moment; \<open>bind\<close> is what the caller gets: the
  exception, or the dictionary returned.
\<close>

definition bind_run ::
  "'f runtime \<Rightarrow> 'f pyval \<Rightarrow> (string \<rightharpoonup> node) \<Rightarrow> 'f exn option \<times> 'f out" where
  "bind_run rt data mapping =
     (let out = Map.empty in
      case mapping ''root'' of
        None \<Rightarrow> (Some (KeyError ''root''), out)
      | Some root_mapping \<Rightarrow> bind_node rt data root_mapping [''root''] out)"

definition bind :: "'f runtime \<Rightarrow> 'f pyval \<Rightarrow> (string \<rightharpoonup> node) \<Rightarrow> 'f exn + 'f out" where
  "bind rt data mapping =
     (case bind_run rt data mapping of
        (Some e, out) \<Rightarrow> Inl e
      | (None, out) \<Rightarrow> Inr out)"

section \<open>The order of the visits\<close>

text \<open>
  The depth-first order of the traversal, written down on its own: a node is visited, then
  its children in the order of the schema, each with the value found under its key; a
  child whose key is missing from the data is passed over.  \<open>visit_order\<close> lists, for the
  nodes that specify a destination, the destination and the final value of the node, in
  the order of the visits.  \<open>replay\<close> performs a list of writes on a dictionary, one after
  the other.
\<close>

definition resolved :: "'f runtime \<Rightarrow> bool \<Rightarrow> pytype \<Rightarrow> 'f pyval \<Rightarrow> 'f pyval option" where
  "resolved rt is_strict t val =
     (case resolve_type rt is_strict t val [] of Inl e \<Rightarrow> None | Inr v \<Rightarrow> Some v)"

fun visit_order :: "'f runtime \<Rightarrow> 'f pyval \<Rightarrow> node \<Rightarrow> (string \<times> 'f pyval) list"
and visit_children ::
  "'f runtime \<Rightarrow> 'f pyval \<Rightarrow> (string \<times> node) list \<Rightarrow> (string \<times> 'f pyval) list"
where
  "visit_order rt val (Node ty st opt dest mn mx ch) =
     (case ty of
        None \<Rightarrow> []
      | Some t \<Rightarrow>
          (case resolved rt (get st True) t val of
             None \<Rightarrow> []
           | Some final_value \<Rightarrow>
               (if truthy_str dest then [(the dest, final_value)] else []) @
               (if t = TDict then visit_children rt final_value ch else [])))"
| "visit_children rt final_value [] = []"
| "visit_children rt final_value ((key, child) # rest) =
     (case lookup final_value key of
        None \<Rightarrow> visit_children rt final_value rest
      | Some v \<Rightarrow> visit_order rt v child @ visit_children rt final_value rest)"

definition replay :: "'f out \<Rightarrow> (string \<times> 'f pyval) list \<Rightarrow> 'f out" where
  "replay out ws = foldl (\<lambda>m (d, v). m(d \<mapsto> v)) out ws"

section \<open>A runtime for the examples\<close>

text \<open>
  The examples below bind strings, integers and dictionaries only, so any runtime serves
  them.  This one has a single floating-point value, lets every conversion that involves
  it fail, and has the limit of 4300 digits.
\<close>

definition example_runtime :: "unit runtime" where
  "example_runtime =
     \<lparr>float_of_int = (\<lambda>i. Inl OverflowError),
      float_of_str = (\<lambda>s. Inl ValueError),
      int_of_float = (\<lambda>f. Inl OverflowError),
      str_of_float = (\<lambda>f. ''nan''),
      str_of_container = (\<lambda>v. ''[]''),
      float_eq = (\<lambda>f g. True),
      float_eq_int = (\<lambda>f i. False),
      max_str_digits = 4300\<rparr>"

section \<open>Facts about the builtins and the traversal\<close>

lemma map_sum_Inr: "map_sum f g x = Inr v \<Longrightarrow> \<exists>y. v = g y"
  by (cases x) auto

lemma dict_of_items_dict: "dict_of_items rt xs acc = Inr v \<Longrightarrow> \<exists>d. v = VDict d"
  by (induction xs arbitrary: acc) (auto split: sum.splits if_splits)

text \<open>After type resolution the value of a str node is a str and that of a dict node a dict.\<close>

lemma resolve_type_str:
  "resolve_type rt is_strict TStr val p = Inr v \<Longrightarrow> \<exists>s. v = VStr s"
  by (cases val)
     (auto simp: resolve_type_def coerce_def split: if_splits sum.splits exn.splits
           dest: map_sum_Inr)

lemma resolve_type_dict:
  "resolve_type rt is_strict TDict val p = Inr v \<Longrightarrow> \<exists>d. v = VDict d"
  by (cases val)
     (auto simp: resolve_type_def coerce_def split: if_splits sum.splits exn.splits
           dest: dict_of_items_dict)

text \<open>The final value does not depend on the path.\<close>

lemma resolved_iff:
  "resolve_type rt is_strict t val p = Inr v \<longleftrightarrow> resolved rt is_strict t val = Some v"
  by (auto simp: resolved_def resolve_type_def split: sum.splits exn.splits if_splits)

text \<open>The two conversions of the docstring's example, under every limit.\<close>

lemma int_of_str_78: "int_of_str rt ''78'' = Inr 78"
  by (simp add: int_of_str_def strip_def is_space_def digit_val_def count_digits_def
        exceeds_limit_def)

lemma int_of_str_abc: "int_of_str rt ''abc'' = Inl ValueError"
  by (simp add: int_of_str_def strip_def is_space_def digit_val_def)

text \<open>
  \<^verbatim>\<open>str\<close> of an int gives its decimal text or raises.  It gives the text when there is no
  limit, when the digits are within the limit, and under every limit when the text has at
  most 640 characters.
\<close>

lemma str_int_text: "str_int rt i = Inr text \<Longrightarrow> text = decimal i"
  by (auto simp: str_int_def split: if_splits)

lemma str_int_no_limit: "max_str_digits rt = 0 \<Longrightarrow> str_int rt i = Inr (decimal i)"
  by (simp add: str_int_def exceeds_limit_def)

lemma str_int_within_limit:
  "length (digits (nat \<bar>i\<bar>)) \<le> max_str_digits rt \<Longrightarrow> str_int rt i = Inr (decimal i)"
  by (simp add: str_int_def exceeds_limit_def)

lemma str_int_short: "length (decimal i) \<le> 640 \<Longrightarrow> str_int rt i = Inr (decimal i)"
  by (simp add: str_int_def exceeds_limit_def)

lemma str_int_1: "str_int rt 1 = Inr ''1''"
  by (simp add: str_int_def exceeds_limit_def decimal_def digits.simps)

lemma str_int_10: "str_int rt 10 = Inr ''10''"
  by (simp add: str_int_def exceeds_limit_def decimal_def digits.simps)

text \<open>
  The loop over a list of children that is split in two: the second part starts from the
  dictionary the first part leaves, and from the path the first part has built.
\<close>

lemma bind_children_append:
  "bind_children rt fv (xs @ ys) p out =
     (case bind_children rt fv xs p out of
        (Some e, out1) \<Rightarrow> (Some e, out1)
      | (None, out1) \<Rightarrow> bind_children rt fv ys (p @ map fst xs) out1)"
proof (induction xs arbitrary: p out)
  case Nil
  show ?case by simp
next
  case (Cons x xs)
  obtain key child where x: "x = (key, child)" by (cases x)
  show ?case
  proof (cases "lookup fv key")
    case None
    then show ?thesis
      by (simp add: x Cons.IH Let_def split: prod.splits option.splits)
  next
    case (Some v)
    then show ?thesis
      by (cases "bind_node rt v child (p @ [key]) out")
         (simp add: x Cons.IH Let_def split: prod.splits option.splits)
  qed
qed

lemma replay_Nil: "replay out [] = out"
  by (simp add: replay_def)

lemma replay_Cons: "replay out ((d, v) # ws) = replay (out(d \<mapsto> v)) ws"
  by (simp add: replay_def)

lemma replay_append: "replay out (xs @ ys) = replay (replay out xs) ys"
  by (simp add: replay_def)

lemma replay_other: "x \<notin> fst ` set ws \<Longrightarrow> replay out ws x = out x"
  by (induction ws arbitrary: out) (auto simp: replay_Nil replay_Cons)

text \<open>
  A call that returns has performed exactly the writes of the nodes it visited, in the
  order of the visits.
\<close>

lemma bind_replay:
  "bind_node rt val mapping p out = (None, out') \<longrightarrow>
     out' = replay out (visit_order rt val mapping)"
  "bind_children rt fv ch p out = (None, out') \<longrightarrow>
     out' = replay out (visit_children rt fv ch)"
proof (induction rt val mapping p out and rt fv ch p out arbitrary: out' and out'
       rule: bind_node_bind_children.induct)
  case (1 rt val ty st opt dest mn mx ch p out)
  then show ?case
    by (auto simp: resolved_iff replay_Nil replay_Cons replay_append write_destination_def
               check_length_def
             split: option.splits sum.splits if_splits)
next
  case (2 rt final_value p out)
  then show ?case by (simp add: replay_Nil)
next
  case (3 rt final_value key child rest p out)
  then show ?case
    by (auto simp: Let_def replay_append split: option.splits prod.splits if_splits)
qed

text \<open>
  When \<^verbatim>\<open>str\<close> refuses the bound that is violated, the call leaves with the exception of
  \<^verbatim>\<open>str\<close>, after the write to the destination.
\<close>

lemma length_check_str_failure:
  assumes "ntype mapping = Some TStr"
    and "resolve_type rt (get (strict mapping) True) TStr val p = Inr final_value"
    and "min_len mapping = Some m" and "m \<noteq> 0" and "len final_value < m"
    and "str_int rt m = Inl e"
  shows "bind_node rt val mapping p out =
           (Some e, write_destination (destination mapping) final_value out)"
  using assms
  by (cases mapping) (simp add: check_length_def raise_length_def truthy_int_def)

lemma str_int_beyond_limit:
  assumes "0 < max_str_digits rt" and "640 < length (digits (nat \<bar>i\<bar>))"
    and "max_str_digits rt < length (digits (nat \<bar>i\<bar>))"
  shows "str_int rt i = Inl ValueError"
  using assms by (auto simp: str_int_def exceeds_limit_def decimal_def)

section \<open>Two runs of the binder\<close>

text \<open>
  The example of the docstring of \<^verbatim>\<open>bind\<close>, with the types written as types: the keys
  \<^verbatim>\<open>not_used\<close> and \<^verbatim>\<open>country\<close> are dropped and the age is converted.
\<close>

lemma docstring_example:
  "bind rt
     (VDict [(VStr ''not_used'', VInt 5), (VStr ''name'', VStr ''John Doe''),
             (VStr ''info'', VDict [(VStr ''country'', VStr ''BE''), (VStr ''age'', VStr ''78'')])])
     [''root'' \<mapsto> Node (Some TDict) None None None None None
        [(''name'', Node (Some TStr) None None (Some ''name'') (Some 1) (Some 10) []),
         (''info'', Node (Some TDict) None None None None None
            [(''age'', Node (Some TInt) (Some False) None (Some ''age'') None None [])])]] =
   Inr [''name'' \<mapsto> VStr ''John Doe'', ''age'' \<mapsto> VInt 78]"
  by (simp add: bind_def bind_run_def resolve_type_def coerce_def get_def write_destination_def
        truthy_str_def truthy_int_def check_length_def int_of_str_78)

text \<open>
  A failure below a chain of only children: every dict on the way has one child, so the
  path holds the keys of the descent and nothing else.
\<close>

lemma only_child_path_example:
  "bind rt (VDict [(VStr ''info'', VDict [(VStr ''age'', VStr ''not-a-number'')])])
     [''root'' \<mapsto> Node (Some TDict) None None None None None
        [(''info'', Node (Some TDict) None None None None None
            [(''age'', Node (Some TInt) None None (Some ''age'') None None [])])]] =
   Inl (InvalidTypeException [''root'', ''info'', ''age''] TStr TInt (VStr ''not-a-number'') True)"
  by (simp add: bind_def bind_run_def resolve_type_def get_def write_destination_def
        truthy_str_def)

section \<open>The claims\<close>

subsection \<open>C1: the path of an error\<close>

text \<open>
  C1 says that the path of an error is the root marker followed by one key for each dict
  entered on the way to the failing value, and that the keys of children handled earlier
  in the same loop never appear in it.  The loop of \<^verbatim>\<open>__bind\<close> assigns the extended list
  to \<^verbatim>\<open>path\<close> itself, so the key of every earlier child stays in the path of the later
  ones.  With the children \<^verbatim>\<open>a\<close> and \<^verbatim>\<open>b\<close>, both strict int, and the data
  \<^verbatim>\<open>{"a": 1, "b": "x"}\<close> the value under \<^verbatim>\<open>b\<close> fails, and the path raised is
  \<^verbatim>\<open>['root', 'a', 'b']\<close>, not \<^verbatim>\<open>['root', 'b']\<close>.
\<close>

theorem path_keeps_earlier_sibling:
  "bind rt (VDict [(VStr ''a'', VInt 1), (VStr ''b'', VStr ''x'')])
     [''root'' \<mapsto> Node (Some TDict) None None None None None
        [(''a'', Node (Some TInt) None None None None None []),
         (''b'', Node (Some TInt) None None None None None [])]] =
   Inl (InvalidTypeException [''root'', ''a'', ''b''] TStr TInt (VStr ''x'') True)"
  by (simp add: bind_def bind_run_def resolve_type_def get_def write_destination_def
        truthy_str_def)

subsection \<open>C2: failures of a conversion\<close>

text \<open>
  C2 says that with \<^verbatim>\<open>strict\<close> false every failure of the conversion reaches the caller
  as \<^verbatim>\<open>InvalidTypeException\<close>.  The \<^verbatim>\<open>except\<close> clause catches \<^verbatim>\<open>ValueError\<close> only, and
  a conversion also fails with \<^verbatim>\<open>TypeError\<close>: \<^verbatim>\<open>int([7, 8])\<close> and \<^verbatim>\<open>dict(5)\<close> do.
  In both calls below the \<^verbatim>\<open>TypeError\<close> of the conversion leaves \<^verbatim>\<open>bind\<close> as it is.
\<close>

theorem conversion_type_error_escapes:
  "bind rt (VDict [(VStr ''age'', VList [VInt 7, VInt 8])])
     [''root'' \<mapsto> Node (Some TDict) None None None None None
        [(''age'', Node (Some TInt) (Some False) None (Some ''age'') None None [])]] =
   Inl TypeError \<and>
   bind rt (VInt 5) [''root'' \<mapsto> Node (Some TDict) (Some False) None None None None []] =
   Inl TypeError"
  by (simp add: bind_def bind_run_def resolve_type_def get_def write_destination_def
        truthy_str_def coerce_def)

subsection \<open>C3: the destination is written before the length is checked\<close>

text \<open>
  C3: for a str node with a non-empty destination \<open>d\<close> whose type resolution gives
  \<open>final_value\<close>, if the length of \<open>final_value\<close> is below a non-zero \<^verbatim>\<open>min_len\<close>, or is
  not and is above a non-zero \<^verbatim>\<open>max_len\<close>, and \<^verbatim>\<open>str\<close> gives the text of the bound that
  is violated, then the call raises \<^verbatim>\<open>InvalidStringLengthException\<close>, and the dictionary
  \<^verbatim>\<open>out\<close> at that moment is the one the call received with \<open>final_value\<close> stored under
  \<open>d\<close>.  (\<^verbatim>\<open>str\<close> gives the text of every bound whose text has at most 640 characters,
  and of every bound within the interpreter's limit: \<open>str_int_short\<close>,
  \<open>str_int_within_limit\<close>.)
\<close>

theorem destination_written_before_length_check:
  assumes "ntype mapping = Some TStr"
    and "destination mapping = Some d" and "d \<noteq> []"
    and "resolve_type rt (get (strict mapping) True) TStr val p = Inr final_value"
    and "(\<exists>m text. min_len mapping = Some m \<and> m \<noteq> 0 \<and> len final_value < m \<and>
            str_int rt m = Inr text) \<or>
         (\<not> (\<exists>m. min_len mapping = Some m \<and> m \<noteq> 0 \<and> len final_value < m) \<and>
          (\<exists>m text. max_len mapping = Some m \<and> m \<noteq> 0 \<and> len final_value > m \<and>
             str_int rt m = Inr text))"
  shows "\<exists>c. bind_node rt val mapping p out =
           (Some (InvalidStringLengthException p val c), out(d \<mapsto> final_value))"
  using assms
  by (cases mapping)
     (auto simp: check_length_def raise_length_def write_destination_def truthy_str_def
        truthy_int_def split: option.splits)

theorem destination_written_before_length_check_witness:
  "\<exists>c. bind_node example_runtime (VStr '''')
          (Node (Some TStr) None None (Some ''name'') (Some 1) (Some 10) [])
          [''root''] Map.empty =
        (Some (InvalidStringLengthException [''root''] (VStr '''') c),
         [''name'' \<mapsto> VStr ''''])"
proof -
  let ?n = "Node (Some TStr) None None (Some ''name'') (Some 1) (Some 10) []"
  have h1: "ntype ?n = Some TStr" by simp
  have h2: "destination ?n = Some ''name''" by simp
  have h3: "''name'' \<noteq> []" by simp
  have h4: "resolve_type example_runtime (get (strict ?n) True) TStr (VStr '''') [''root'']
              = Inr (VStr '''')"
    by (simp add: resolve_type_def get_def)
  have h5: "(\<exists>m text. min_len ?n = Some m \<and> m \<noteq> 0 \<and> len (VStr '''' :: unit pyval) < m \<and>
               str_int example_runtime m = Inr text) \<or>
            (\<not> (\<exists>m. min_len ?n = Some m \<and> m \<noteq> 0 \<and> len (VStr '''' :: unit pyval) < m) \<and>
             (\<exists>m text. max_len ?n = Some m \<and> m \<noteq> 0 \<and> len (VStr '''' :: unit pyval) > m \<and>
                str_int example_runtime m = Inr text))"
    by (simp add: str_int_1)
  show ?thesis by (rule destination_written_before_length_check [OF h1 h2 h3 h4 h5])
qed

subsection \<open>C4: strict int nodes\<close>

text \<open>
  C4: for a node with type int and \<^verbatim>\<open>strict\<close> true (given or by default), binding any
  str raises \<^verbatim>\<open>InvalidTypeException\<close> with the path, the type found (str), the expected
  type (int), the value itself and \<^verbatim>\<open>strict\<close> true, and leaves \<^verbatim>\<open>out\<close> as it was;
  binding an int returns, and the final value, which is what is stored under a non-empty
  destination, is the int that was passed.
\<close>

theorem strict_int_node:
  assumes "ntype mapping = Some TInt" and "get (strict mapping) True"
  shows "bind_node rt (VStr s) mapping p out =
           (Some (InvalidTypeException p TStr TInt (VStr s) True), out) \<and>
         resolve_type rt (get (strict mapping) True) TInt (VInt i) p = Inr (VInt i) \<and>
         bind_node rt (VInt i) mapping p out =
           (None, if truthy_str (destination mapping)
                  then out(the (destination mapping) \<mapsto> VInt i) else out)"
  using assms
  by (cases mapping) (simp add: resolve_type_def write_destination_def)

theorem strict_int_node_witness:
  "bind_node example_runtime (VStr ''12'')
     (Node (Some TInt) None None (Some ''age'') None None []) [''root''] Map.empty =
     (Some (InvalidTypeException [''root''] TStr TInt (VStr ''12'') True), Map.empty) \<and>
   bind_node example_runtime (VInt 12)
     (Node (Some TInt) None None (Some ''age'') None None []) [''root''] Map.empty =
     (None, [''age'' \<mapsto> VInt 12])"
proof -
  let ?n = "Node (Some TInt) None None (Some ''age'') None None []"
  have h1: "ntype ?n = Some TInt" by simp
  have h2: "get (strict ?n) True" by (simp add: get_def)
  from strict_int_node [OF h1 h2, of example_runtime "''12''" "[''root'']" Map.empty 12]
  show ?thesis by (simp add: truthy_str_def write_destination_def)
qed

subsection \<open>C5: converting a str to an int\<close>

text \<open>
  C5: for a node with type int and \<^verbatim>\<open>strict\<close> false, binding the str \<^verbatim>\<open>"78"\<close> returns
  with the final value the int 78 (stored under a non-empty destination), and binding
  the str \<^verbatim>\<open>"abc"\<close> raises \<^verbatim>\<open>InvalidTypeException\<close> with \<^verbatim>\<open>strict\<close> false.
\<close>

theorem convert_str_to_int:
  assumes "ntype mapping = Some TInt" and "strict mapping = Some False"
  shows "resolve_type rt False TInt (VStr ''78'') p = Inr (VInt 78) \<and>
         bind_node rt (VStr ''78'') mapping p out =
           (None, if truthy_str (destination mapping)
                  then out(the (destination mapping) \<mapsto> VInt 78) else out) \<and>
         bind_node rt (VStr ''abc'') mapping p out =
           (Some (InvalidTypeException p TStr TInt (VStr ''abc'') False), out)"
  using assms
  by (cases mapping)
     (simp add: resolve_type_def coerce_def get_def write_destination_def
        int_of_str_78 int_of_str_abc)

theorem convert_str_to_int_witness:
  "bind_node example_runtime (VStr ''78'')
     (Node (Some TInt) (Some False) None (Some ''age'') None None []) [''root''] Map.empty =
     (None, [''age'' \<mapsto> VInt 78]) \<and>
   bind_node example_runtime (VStr ''abc'')
     (Node (Some TInt) (Some False) None (Some ''age'') None None []) [''root''] Map.empty =
     (Some (InvalidTypeException [''root''] TStr TInt (VStr ''abc'') False), Map.empty)"
proof -
  let ?n = "Node (Some TInt) (Some False) None (Some ''age'') None None []"
  have h1: "ntype ?n = Some TInt" by simp
  have h2: "strict ?n = Some False" by simp
  from convert_str_to_int [OF h1 h2, of example_runtime "[''root'']" Map.empty]
  show ?thesis by (simp add: truthy_str_def write_destination_def)
qed

subsection \<open>C6: the bounds on the length of a str\<close>

text \<open>
  C6: for a str node whose type resolution gives the str \<open>s\<close>, \<^verbatim>\<open>min_len\<close> is checked
  before \<^verbatim>\<open>max_len\<close>.  If \<^verbatim>\<open>min_len\<close> is set to a non-zero \<open>m\<close>, \<open>s\<close> is shorter than
  \<open>m\<close> and \<^verbatim>\<open>str(m)\<close> gives \<open>text\<close>, the call raises \<^verbatim>\<open>InvalidStringLengthException\<close>
  with the constraint \<^verbatim>\<open>>= \<close> followed by \<open>text\<close>.  Otherwise, if \<^verbatim>\<open>max_len\<close> is set to a
  non-zero \<open>m\<close>, \<open>s\<close> is longer than \<open>m\<close> and \<^verbatim>\<open>str(m)\<close> gives \<open>text\<close>, it raises the
  exception with the constraint \<^verbatim>\<open><= \<close> followed by \<open>text\<close>.  With no bound violated
  the call returns; in particular a bound that is absent or zero constrains nothing.
  Where \<^verbatim>\<open>str\<close> gives a text, it is the decimal text of the bound (\<open>str_int_text\<close>), and
  it gives one for every bound whose text has at most 640 characters and for every bound
  within the interpreter's limit (\<open>str_int_short\<close>, \<open>str_int_within_limit\<close>).
\<close>

theorem string_length_bounds:
  assumes "ntype mapping = Some TStr"
    and "resolve_type rt (get (strict mapping) True) TStr val p = Inr (VStr s)"
  shows
    "(\<forall>m text. min_len mapping = Some m \<and> m \<noteq> 0 \<and> int (length s) < m \<and>
          str_int rt m = Inr text \<longrightarrow>
        bind_node rt val mapping p out =
          (Some (InvalidStringLengthException p val (''>= '' @ text)),
           write_destination (destination mapping) (VStr s) out)) \<and>
     (\<forall>m text. \<not> (\<exists>k. min_len mapping = Some k \<and> k \<noteq> 0 \<and> int (length s) < k) \<and>
          max_len mapping = Some m \<and> m \<noteq> 0 \<and> int (length s) > m \<and>
          str_int rt m = Inr text \<longrightarrow>
        bind_node rt val mapping p out =
          (Some (InvalidStringLengthException p val (''<= '' @ text)),
           write_destination (destination mapping) (VStr s) out)) \<and>
     (\<not> (\<exists>k. min_len mapping = Some k \<and> k \<noteq> 0 \<and> int (length s) < k) \<and>
      \<not> (\<exists>k. max_len mapping = Some k \<and> k \<noteq> 0 \<and> int (length s) > k) \<longrightarrow>
        bind_node rt val mapping p out =
          (None, write_destination (destination mapping) (VStr s) out))"
  using assms
  by (cases mapping)
     (auto simp: check_length_def raise_length_def truthy_int_def split: option.splits)

theorem string_length_bounds_witness:
  "bind_node example_runtime (VStr '''')
     (Node (Some TStr) None None None (Some 1) (Some 10) []) [''root''] Map.empty =
     (Some (InvalidStringLengthException [''root''] (VStr '''') ''>= 1''), Map.empty) \<and>
   bind_node example_runtime (VStr ''John Doe Jr.'')
     (Node (Some TStr) None None None (Some 1) (Some 10) []) [''root''] Map.empty =
     (Some (InvalidStringLengthException [''root''] (VStr ''John Doe Jr.'') ''<= 10''),
      Map.empty) \<and>
   bind_node example_runtime (VStr ''John Doe'')
     (Node (Some TStr) None None None (Some 1) (Some 10) []) [''root''] Map.empty =
     (None, Map.empty) \<and>
   bind_node example_runtime (VStr '''')
     (Node (Some TStr) None None None (Some 0) None []) [''root''] Map.empty =
     (None, Map.empty)"
proof -
  let ?n = "Node (Some TStr) None None None (Some 1) (Some 10) []"
  let ?z = "Node (Some TStr) None None None (Some 0) None []"
  have t: "ntype ?n = Some TStr" "ntype ?z = Some TStr" by simp_all
  have r: "resolve_type example_runtime (get (strict ?n) True) TStr (VStr s) [''root'']
             = Inr (VStr s)"
          "resolve_type example_runtime (get (strict ?z) True) TStr (VStr s) [''root'']
             = Inr (VStr s)" for s
    by (simp_all add: resolve_type_def get_def)
  from string_length_bounds [OF t(1) r(1), of "''''" Map.empty]
  have a: "bind_node example_runtime (VStr '''') ?n [''root''] Map.empty =
     (Some (InvalidStringLengthException [''root''] (VStr '''') ''>= 1''), Map.empty)"
    by (simp add: write_destination_def truthy_str_def str_int_1)
  from string_length_bounds [OF t(1) r(1), of "''John Doe Jr.''" Map.empty]
  have b: "bind_node example_runtime (VStr ''John Doe Jr.'') ?n [''root''] Map.empty =
     (Some (InvalidStringLengthException [''root''] (VStr ''John Doe Jr.'') ''<= 10''),
      Map.empty)"
    by (simp add: write_destination_def truthy_str_def str_int_10)
  from string_length_bounds [OF t(1) r(1), of "''John Doe''" Map.empty]
  have c: "bind_node example_runtime (VStr ''John Doe'') ?n [''root''] Map.empty =
     (None, Map.empty)"
    by (simp add: write_destination_def truthy_str_def)
  from string_length_bounds [OF t(2) r(2), of "''''" Map.empty]
  have d: "bind_node example_runtime (VStr '''') ?z [''root''] Map.empty = (None, Map.empty)"
    by (simp add: write_destination_def truthy_str_def)
  from a b c d show ?thesis by blast
qed

subsection \<open>C7: a child key that is missing from the data\<close>

text \<open>
  C7: take a dict node whose type resolution gives \<open>final_value\<close>, and a child \<open>key\<close> of
  it that is missing from \<open>final_value\<close>, reached by the loop after the children \<open>before\<close>
  it were bound without an exception, leaving the dictionary \<open>out1\<close>.  If the child is
  optional, the call goes on with the children after it from the same \<open>out1\<close>: no
  exception is raised for the child, the child is not bound and nothing is written for
  it.  If the child is not optional (the default), the call raises
  \<^verbatim>\<open>RequiredValueMissingException\<close> with that key.
\<close>

theorem missing_child_key:
  assumes "ntype mapping = Some TDict"
    and "resolve_type rt (get (strict mapping) True) TDict val p = Inr final_value"
    and "children mapping = before @ (key, child) # rest"
    and "bind_children rt final_value before p
           (write_destination (destination mapping) final_value out) = (None, out1)"
    and "lookup final_value key = None"
  shows "bind_node rt val mapping p out =
           (if get (optional child) False
            then bind_children rt final_value rest (p @ map fst before @ [key]) out1
            else (Some (RequiredValueMissingException (p @ map fst before @ [key]) key),
                  out1))"
  using assms by (cases mapping) (simp add: bind_children_append Let_def)

theorem missing_child_key_witness:
  "bind_node example_runtime (VDict [(VStr ''name'', VStr ''Jo'')])
     (Node (Some TDict) None None None None None
        [(''name'', Node (Some TStr) None None (Some ''name'') None None []),
         (''nick'', Node (Some TStr) None (Some True) (Some ''nick'') None None []),
         (''age'', Node (Some TInt) None None (Some ''age'') None None [])])
     [''root''] Map.empty =
   (Some (RequiredValueMissingException [''root'', ''name'', ''nick'', ''age''] ''age''),
    [''name'' \<mapsto> VStr ''Jo''])"
proof -
  let ?name = "Node (Some TStr) None None (Some ''name'') None None []"
  let ?nick = "Node (Some TStr) None (Some True) (Some ''nick'') None None []"
  let ?age = "Node (Some TInt) None None (Some ''age'') None None []"
  let ?n = "Node (Some TDict) None None None None None
              [(''name'', ?name), (''nick'', ?nick), (''age'', ?age)]"
  let ?d = "VDict [(VStr ''name'', VStr ''Jo'')] :: unit pyval"
  let ?out1 = "[''name'' \<mapsto> VStr ''Jo''] :: unit out"
  have h1: "ntype ?n = Some TDict" by simp
  have h2: "resolve_type example_runtime (get (strict ?n) True) TDict ?d [''root''] = Inr ?d"
    by (simp add: resolve_type_def get_def)
  have h3: "children ?n = [(''name'', ?name)] @ (''nick'', ?nick) # [(''age'', ?age)]"
    by simp
  have h4: "bind_children example_runtime ?d [(''name'', ?name)] [''root'']
              (write_destination (destination ?n) ?d Map.empty) = (None, ?out1)"
    by (simp add: resolve_type_def get_def write_destination_def truthy_str_def
          check_length_def truthy_int_def)
  have h5: "lookup ?d ''nick'' = None" by simp
  from missing_child_key [OF h1 h2 h3 h4 h5]
  show ?thesis by (simp add: get_def)
qed

subsection \<open>C8: two nodes with the same destination\<close>

text \<open>
  C8: when \<^verbatim>\<open>bind\<close> returns the dictionary \<open>out\<close>, and two nodes visited by the traversal
  specify the same destination \<open>x\<close>, the first with the final value \<open>v1\<close> and the second,
  visited later, with the final value \<open>v2\<close>, and no node visited after the second
  specifies \<open>x\<close>, then \<open>out\<close> holds \<open>v2\<close> under \<open>x\<close>: the value of the earlier node has been
  overwritten.  The two nodes may stand at any depths of the schema.
\<close>

theorem later_visit_overwrites:
  assumes "bind rt data mapping = Inr out"
    and "mapping ''root'' = Some root"
    and "visit_order rt data root = before @ (x, v1) # between @ (x, v2) # after"
    and "x \<notin> fst ` set after"
  shows "out x = Some v2"
proof -
  from assms(1,2) have "bind_node rt data root [''root''] Map.empty = (None, out)"
    by (simp add: bind_def bind_run_def split: prod.splits option.splits)
  then have "out = replay Map.empty (visit_order rt data root)"
    using bind_replay(1) by blast
  also have "\<dots> = replay ((replay Map.empty (before @ (x, v1) # between))(x \<mapsto> v2)) after"
    by (simp add: assms(3) replay_append replay_Cons)
  finally show ?thesis
    using assms(4) by (simp add: replay_other)
qed

theorem later_visit_overwrites_witness:
  "\<exists>out. bind example_runtime
            (VDict [(VStr ''info'', VDict [(VStr ''x'', VInt 2)]), (VStr ''x'', VInt 1)])
            [''root'' \<mapsto> Node (Some TDict) None None None None None
               [(''x'', Node (Some TInt) None None (Some ''x'') None None []),
                (''info'', Node (Some TDict) None None None None None
                   [(''x'', Node (Some TInt) None None (Some ''x'') None None [])])]] =
          Inr out \<and>
        out ''x'' = Some (VInt 2)"
proof -
  let ?leaf = "Node (Some TInt) None None (Some ''x'') None None []"
  let ?root = "Node (Some TDict) None None None None None
        [(''x'', ?leaf), (''info'', Node (Some TDict) None None None None None [(''x'', ?leaf)])]"
  let ?data = "VDict [(VStr ''info'', VDict [(VStr ''x'', VInt 2)]), (VStr ''x'', VInt 1)]
                 :: unit pyval"
  let ?out = "[''x'' \<mapsto> VInt 2] :: unit out"
  have h1: "bind example_runtime ?data [''root'' \<mapsto> ?root] = Inr ?out"
    by (simp add: bind_def bind_run_def resolve_type_def get_def write_destination_def
          truthy_str_def)
  have h2: "[''root'' \<mapsto> ?root] ''root'' = Some ?root" by simp
  have h3: "visit_order example_runtime ?data ?root =
              [] @ (''x'', VInt 1) # [] @ (''x'', VInt 2) # []"
    by (simp add: resolved_def resolve_type_def get_def truthy_str_def)
  have h4: "''x'' \<notin> fst ` set ([] :: (string \<times> unit pyval) list)" by simp
  from later_visit_overwrites [OF h1 h2 h3 h4] have "?out ''x'' = Some (VInt 2)" .
  with h1 show ?thesis by blast
qed

subsection \<open>C9: a type that is not one of the five\<close>

text \<open>
  C9: for a node whose \<^verbatim>\<open>type\<close> is none of str, int, float, dict and list, binding any
  value raises the base \<^verbatim>\<open>BindException\<close>, with the path and a message, and not
  \<^verbatim>\<open>InvalidTypeException\<close>; the exception is the same for every value and \<^verbatim>\<open>out\<close> is
  left as it was.
\<close>

theorem unknown_type_base_exception:
  assumes "ntype mapping = Some t" and "t \<notin> {TStr, TInt, TFloat, TDict, TList}"
  shows "bind_node rt val mapping p out =
           (Some (BindException p (''Unknown expected type: '' @ str_type t)), out)"
  using assms by (cases mapping) simp

theorem unknown_type_base_exception_witness:
  "bind_node example_runtime (VInt 3)
     (Node (Some (TOther ''bool'')) None None None None None []) [''root''] Map.empty =
     (Some (BindException [''root''] ''Unknown expected type: bool''), Map.empty)"
proof -
  let ?n = "Node (Some (TOther ''bool'')) None None None None None []"
  have h1: "ntype ?n = Some (TOther ''bool'')" by simp
  have h2: "TOther ''bool'' \<notin> {TStr, TInt, TFloat, TDict, TList}" by simp
  from unknown_type_base_exception [OF h1 h2, of example_runtime "VInt 3" "[''root'']" Map.empty]
  show ?thesis by simp
qed

subsection \<open>C10: a schema without the key root\<close>

text \<open>
  C10: when the schema has no entry under \<^verbatim>\<open>"root"\<close>, \<^verbatim>\<open>bind\<close> raises \<^verbatim>\<open>KeyError\<close> for
  that key, which is none of the exceptions of the module, whatever the data; no node is
  bound, and the dictionary \<^verbatim>\<open>out\<close> is still empty when the exception is raised.
\<close>

theorem missing_root_key_error:
  assumes "mapping ''root'' = None"
  shows "bind rt data mapping = Inl (KeyError ''root'') \<and>
         bind_run rt data mapping = (Some (KeyError ''root''), Map.empty)"
  using assms by (simp add: bind_def bind_run_def)

theorem missing_root_key_error_witness:
  "bind example_runtime (VInt 3)
     [''node'' \<mapsto> Node (Some TInt) None None (Some ''n'') None None []] =
     Inl (KeyError ''root'') \<and>
   bind_run example_runtime (VInt 3)
     [''node'' \<mapsto> Node (Some TInt) None None (Some ''n'') None None []] =
     (Some (KeyError ''root''), Map.empty)"
proof -
  let ?m = "[''node'' \<mapsto> Node (Some TInt) None None (Some ''n'') None None []]"
  have h: "?m ''root'' = None" by simp
  show ?thesis
    by (rule missing_root_key_error
          [where mapping = "?m" and rt = example_runtime and data = "VInt 3", OF h])
qed

end
